theory Spec2Isabelle
  imports Main
begin

section \<open>Strings and values of the JavaScript sources\<close>

text \<open>
  A JavaScript string is a sequence of UTF-16 code units; the regular expressions of the
  sources (none has the \<open>u\<close> flag) and \<open>trim\<close> work on code units, so a string is a list of
  code units here. \<open>String.prototype.toLowerCase\<close> is a built-in of the host: every
  definition that calls it takes it as the parameter \<open>lc\<close>. \<open>asciiLower\<close> is the instance
  used to evaluate concrete inputs; it agrees with \<open>toLowerCase\<close> on strings whose letters
  are ASCII or CJK.
\<close>

type_synonym jstring = "nat list"

definition asciiLower :: "jstring \<Rightarrow> jstring" where
  "asciiLower s = map (\<lambda>c. if 65 \<le> c \<and> c \<le> 90 then c + 32 else c) s"

text \<open>
  \<open>a || b\<close> on an optional string, number or array. A missing or null property is \<open>None\<close>.
  The empty string and the number 0 are falsy as well; an empty array is truthy.
\<close>

definition orStr :: "jstring option \<Rightarrow> jstring \<Rightarrow> jstring" where
  "orStr a d = (case a of None \<Rightarrow> d | Some s \<Rightarrow> if s = [] then d else s)"

definition orNum :: "int option \<Rightarrow> int \<Rightarrow> int" where
  "orNum a d = (case a of None \<Rightarrow> d | Some n \<Rightarrow> if n = 0 then d else n)"

definition orArr :: "'a list option \<Rightarrow> 'a list \<Rightarrow> 'a list" where
  "orArr a d = (case a of None \<Rightarrow> d | Some xs \<Rightarrow> xs)"

section \<open>Dictionary records (dictionary.js)\<close>

text \<open>
  The objects that \<open>extractMeanings\<close> and \<open>parseWiktionaryEntries\<close> build. A definition
  has the properties \<open>definition\<close> (here \<open>definition_text\<close>) and \<open>examples\<close> and, once
  \<open>translateDefinitions\<close> has run, \<open>translationZh\<close>. A meaning has a part of speech, its
  definitions and synonyms.
\<close>

record definition_rec =
  definition_text :: jstring
  examples :: "jstring list"
  translationZh :: "jstring option"

record meaning =
  partOfSpeech :: jstring
  definitions :: "definition_rec list"
  synonyms :: "jstring list"

section \<open>The word store (storage.js)\<close>

text \<open>
  The object store \<open>words\<close> of IndexedDB has key path \<open>word\<close>: it holds at most one record
  per value of \<open>word\<close>. Timestamps are milliseconds since the epoch. \<open>nextReviewAt\<close> is
  \<open>None\<close> when the stored number is NaN (see \<open>getNextReviewDate\<close>); \<open>audioUrl\<close> and
  \<open>lastReviewedAt\<close> are \<open>None\<close> when the property is null or absent. Numbers are integers.
\<close>

record wordRec =
  word :: jstring
  phonetic :: jstring
  audioUrl :: "jstring option"
  meanings :: "meaning list"
  translation :: jstring
  addedAt :: int
  nextReviewAt :: "int option"
  reviewCount :: int
  level :: int
  lastReviewedAt :: "int option"

type_synonym store = "wordRec list"

text \<open>\<open>store.put(entry)\<close>: replaces the record with the same key, or adds the record.\<close>

fun put :: "wordRec \<Rightarrow> store \<Rightarrow> store" where
  "put r [] = [r]"
| "put r (x # xs) = (if word x = word r then r # xs else x # put r xs)"

text \<open>\<open>store.get(key)\<close>.\<close>

definition get :: "jstring \<Rightarrow> store \<Rightarrow> wordRec option" where
  "get k st = find (\<lambda>r. word r = k) st"

text \<open>The argument of \<open>saveWord\<close>; every property but \<open>word\<close> may be missing.\<close>

record wordData =
  wd_word :: jstring
  wd_phonetic :: "jstring option"
  wd_audioUrl :: "jstring option"
  wd_meanings :: "meaning list option"
  wd_translation :: "jstring option"

definition day :: int where
  "day = 24 * 60 * 60 * 1000"

text \<open>
  \<open>saveWord(wordData)\<close>. The two reads of \<open>Date.now()\<close> in the object literal happen in one
  synchronous step and are the one instant \<open>now\<close>.
\<close>

definition saveWord :: "(jstring \<Rightarrow> jstring) \<Rightarrow> int \<Rightarrow> wordData \<Rightarrow> store \<Rightarrow> store" where
  "saveWord lc now wordData st =
     put \<lparr> word = lc (wd_word wordData),
            phonetic = orStr (wd_phonetic wordData) [],
            audioUrl = (case wd_audioUrl wordData of None \<Rightarrow> None
                        | Some u \<Rightarrow> if u = [] then None else Some u),
            meanings = orArr (wd_meanings wordData) [],
            translation = orStr (wd_translation wordData) [],
            addedAt = now,
            nextReviewAt = Some (now + 24 * 60 * 60 * 1000),
            reviewCount = 0,
            level = 0,
            lastReviewedAt = None \<rparr> st"

definition getWord :: "(jstring \<Rightarrow> jstring) \<Rightarrow> jstring \<Rightarrow> store \<Rightarrow> wordRec option" where
  "getWord lc w st = get (lc w) st"

definition getAllWords :: "store \<Rightarrow> wordRec list" where
  "getAllWords st = st"

text \<open>
  \<open>updateWord(word, updates)\<close>: the merge \<open>{...existing, ...updates}\<close> is the function
  \<open>updates\<close> applied to the existing record; nothing happens when the key is absent.
\<close>

definition updateWord ::
  "(jstring \<Rightarrow> jstring) \<Rightarrow> jstring \<Rightarrow> (wordRec \<Rightarrow> wordRec) \<Rightarrow> store \<Rightarrow> store" where
  "updateWord lc w updates st =
     (case get (lc w) st of None \<Rightarrow> st | Some existing \<Rightarrow> put (updates existing) st)"

section \<open>The scheduler (ebbinghaus.js)\<close>

definition REVIEW_INTERVALS :: "int list" where
  "REVIEW_INTERVALS =
     [1 * 24 * 60 * 60 * 1000, 2 * 24 * 60 * 60 * 1000, 4 * 24 * 60 * 60 * 1000,
      7 * 24 * 60 * 60 * 1000, 15 * 24 * 60 * 60 * 1000, 30 * 24 * 60 * 60 * 1000]"

text \<open>
  \<open>getNextReviewDate(level)\<close> at the instant \<open>now\<close>. For a negative level
  \<open>REVIEW_INTERVALS[level]\<close> is undefined and the sum is NaN: the result is \<open>None\<close>.
\<close>

definition getNextReviewDate :: "int \<Rightarrow> int \<Rightarrow> int option" where
  "getNextReviewDate now lv =
     (if lv \<ge> int (length REVIEW_INTERVALS) then Some (now + 60 * 24 * 60 * 60 * 1000)
      else if 0 \<le> lv then Some (now + REVIEW_INTERVALS ! nat lv)
      else None)"

text \<open>
  \<open>markAsReviewed(word, remembered)\<close>: returns the store and the updated record, or the
  store as it was and \<open>None\<close> (the source's null) when the word is not stored.
\<close>

definition markAsReviewed ::
  "(jstring \<Rightarrow> jstring) \<Rightarrow> int \<Rightarrow> jstring \<Rightarrow> bool \<Rightarrow> store \<Rightarrow> store \<times> wordRec option" where
  "markAsReviewed lc now w remembered st =
     (case find (\<lambda>r. word r = lc w) (getAllWords st) of
        None \<Rightarrow> (st, None)
      | Some entry \<Rightarrow>
          (let newLevel = (if remembered
                           then min (level entry + 1) (int (length REVIEW_INTERVALS))
                           else 0);
               updates = (\<lambda>r. r\<lparr> level := newLevel,
                                  reviewCount := reviewCount entry + 1,
                                  nextReviewAt := getNextReviewDate now newLevel,
                                  lastReviewedAt := Some now \<rparr>)
           in (updateWord lc w updates st, Some (updates entry))))"

text \<open>
  The interval table in the words of the specification: 1, 2, 4, 7, 15, 30 days for the
  levels 0 to 5 and 60 days for the mastered level 6.
\<close>

definition interval_days :: "int \<Rightarrow> int" where
  "interval_days lv =
     (if lv = 0 then 1 else if lv = 1 then 2 else if lv = 2 then 4 else if lv = 3 then 7
      else if lv = 4 then 15 else if lv = 5 then 30 else 60)"

section \<open>Export and import (storage.js)\<close>

text \<open>
  A record of a backup file, as \<open>JSON.parse\<close> returns it: any property may be missing or
  null. The elements of the array are objects.
\<close>

record entry =
  j_word :: "jstring option"
  j_phonetic :: "jstring option"
  j_audioUrl :: "jstring option"
  j_meanings :: "meaning list option"
  j_translation :: "jstring option"
  j_addedAt :: "int option"
  j_nextReviewAt :: "int option"
  j_reviewCount :: "int option"
  j_level :: "int option"
  j_lastReviewedAt :: "int option"

text \<open>
  What \<open>JSON.stringify\<close> followed by \<open>JSON.parse\<close> makes of a stored record: every
  property that holds a value is kept, a NaN becomes null.
\<close>

definition toJSON :: "wordRec \<Rightarrow> entry" where
  "toJSON r = \<lparr> j_word = Some (word r), j_phonetic = Some (phonetic r),
                j_audioUrl = audioUrl r, j_meanings = Some (meanings r),
                j_translation = Some (translation r), j_addedAt = Some (addedAt r),
                j_nextReviewAt = nextReviewAt r, j_reviewCount = Some (reviewCount r),
                j_level = Some (level r), j_lastReviewedAt = lastReviewedAt r \<rparr>"

datatype error = NoDataToExport | ParseError | NoWordsFound | TypeError

record exportData =
  version :: int
  exportedAt :: int
  wordCount :: nat
  words :: "entry list"

text \<open>
  \<open>exportAllWords()\<close>: the content of the downloaded file, or the error thrown for an
  empty store. \<open>exportedAt\<close> is the instant of the export.
\<close>

definition exportAllWords :: "int \<Rightarrow> store \<Rightarrow> error + exportData" where
  "exportAllWords now st =
     (let ws = getAllWords st in
      if length ws = 0 then Inl NoDataToExport
      else Inr \<lparr> version = 1, exportedAt = now, wordCount = length ws,
                 words = map toJSON ws \<rparr>)"

text \<open>
  The text of an imported file after \<open>JSON.parse\<close>: not JSON at all, an array of records,
  an object (whose property \<open>words\<close> is missing or falsy, an array of records, or some
  other truthy value), null, or another scalar.
\<close>

datatype wordsField = WordsMissing | WordsArray "entry list" | WordsOther

datatype payload = Unparsable | JArray "entry list" | JObject wordsField | JNull | JScalar

record counts =
  imported :: nat
  skipped :: nat

text \<open>
  The object that the loop of \<open>importWords\<close> hands to \<open>store.put\<close> for the record \<open>e\<close>
  with the truthy word \<open>w\<close> at the instant \<open>now\<close>. The object literal of the source has no
  property \<open>audioUrl\<close>.
\<close>

definition importedRecord :: "(jstring \<Rightarrow> jstring) \<Rightarrow> int \<Rightarrow> entry \<Rightarrow> jstring \<Rightarrow> wordRec" where
  "importedRecord lc now e w =
     \<lparr> word = lc w,
       phonetic = orStr (j_phonetic e) [],
       audioUrl = None,
       meanings = orArr (j_meanings e) [],
       translation = orStr (j_translation e) [],
       addedAt = orNum (j_addedAt e) now,
       nextReviewAt = Some (orNum (j_nextReviewAt e) (now + 24 * 60 * 60 * 1000)),
       reviewCount = orNum (j_reviewCount e) 0,
       level = orNum (j_level e) 0,
       lastReviewedAt = (case j_lastReviewedAt e of None \<Rightarrow> None
                         | Some t \<Rightarrow> if t = 0 then None else Some t) \<rparr>"

text \<open>
  One turn of the loop of \<open>importWords\<close> at the instant \<open>now\<close>: the store and the two
  counters before, and after. A record without a truthy \<open>word\<close> is passed over.
\<close>

definition importEntry ::
  "(jstring \<Rightarrow> jstring) \<Rightarrow> int \<Rightarrow> entry \<Rightarrow> store \<times> counts \<Rightarrow> store \<times> counts" where
  "importEntry lc now e sc =
     (let st = fst sc; c = snd sc in
      case j_word e of
        None \<Rightarrow> sc
      | Some w \<Rightarrow>
          if w = [] then sc
          else (case getWord lc w st of
                  Some existing \<Rightarrow> (st, c\<lparr> skipped := skipped c + 1 \<rparr>)
                | None \<Rightarrow> (put (importedRecord lc now e w) st,
                           c\<lparr> imported := imported c + 1 \<rparr>)))"

text \<open>
  The loop over the records; \<open>clock i\<close> is what \<open>Date.now()\<close> returns while the record of
  index \<open>i\<close> is handled.
\<close>

fun importLoop ::
  "(jstring \<Rightarrow> jstring) \<Rightarrow> (nat \<Rightarrow> int) \<Rightarrow> nat \<Rightarrow> entry list \<Rightarrow> store \<times> counts
     \<Rightarrow> store \<times> counts" where
  "importLoop lc clock i [] sc = sc"
| "importLoop lc clock i (e # es) sc =
     importLoop lc clock (Suc i) es (importEntry lc (clock i) e sc)"

text \<open>
  \<open>importWords(file)\<close>: the store afterwards, and the counters returned or the error
  thrown.
\<close>

definition importWords ::
  "(jstring \<Rightarrow> jstring) \<Rightarrow> (nat \<Rightarrow> int) \<Rightarrow> payload \<Rightarrow> store \<Rightarrow> store \<times> (error + counts)" where
  "importWords lc clock data st =
     (case data of
        Unparsable \<Rightarrow> (st, Inl ParseError)
      | JNull \<Rightarrow> (st, Inl TypeError)
      | JObject WordsOther \<Rightarrow> (st, Inl NoWordsFound)
      | _ \<Rightarrow>
          (let ws = (case data of JArray es \<Rightarrow> es | JObject (WordsArray es) \<Rightarrow> es | _ \<Rightarrow> [])
           in if length ws = 0 then (st, Inl NoWordsFound)
              else (let r = importLoop lc clock 0 ws (st, \<lparr> imported = 0, skipped = 0 \<rparr>)
                    in (fst r, Inr (snd r)))))"

section \<open>The input classifier (dictionary.js)\<close>

text \<open>
  \<open>isWhiteSpace\<close> is the white space class of a JavaScript regular expression, which is
  also what \<open>trim\<close> removes: the white space and line terminator code units of ECMAScript.
  \<open>isCJK\<close> is the class of the first test of \<open>detectInputType\<close>: the code units 4E00 to
  9FFF, 3400 to 4DBF and F900 to FAFF.
\<close>

datatype inputType = Chinese | Phrase | Word

definition isWhiteSpace :: "nat \<Rightarrow> bool" where
  "isWhiteSpace c =
     (c \<in> set [9, 10, 11, 12, 13, 32, 160, 5760, 8232, 8233, 8239, 8287, 12288, 65279]
      \<or> (8192 \<le> c \<and> c \<le> 8202))"

definition trim :: "jstring \<Rightarrow> jstring" where
  "trim s = rev (dropWhile isWhiteSpace (rev (dropWhile isWhiteSpace s)))"

definition isCJK :: "nat \<Rightarrow> bool" where
  "isCJK c = ((0x4e00 \<le> c \<and> c \<le> 0x9fff) \<or> (0x3400 \<le> c \<and> c \<le> 0x4dbf)
              \<or> (0xf900 \<le> c \<and> c \<le> 0xfaff))"

text \<open>
  \<open>trimmed.split\<close> at white space: the string is cut at every maximal run of white space; a run
  at the start or at the end leaves an empty first or last element, and the empty string
  gives one empty element. \<open>cur\<close> is the element being read.
\<close>

function splitFrom :: "jstring \<Rightarrow> jstring \<Rightarrow> jstring list" where
  "splitFrom cur [] = [cur]"
| "splitFrom cur (c # cs) =
     (if isWhiteSpace c then cur # splitFrom [] (dropWhile isWhiteSpace cs)
      else splitFrom (cur @ [c]) cs)"
  by pat_completeness auto
termination
  by (relation "measure (\<lambda>(cur, s). length s)")
     (auto simp: less_Suc_eq_le length_dropWhile_le)

definition splitWhiteSpace :: "jstring \<Rightarrow> jstring list" where
  "splitWhiteSpace s = splitFrom [] s"

definition detectInputType :: "jstring \<Rightarrow> inputType" where
  "detectInputType input =
     (let trimmed = trim input in
      if list_ex isCJK trimmed then Chinese
      else if list_ex isWhiteSpace trimmed \<and> length (splitWhiteSpace trimmed) > 1 then Phrase
      else Word)"

text \<open>
  The tokens of a text in the words of the specification: the non-empty pieces between
  white space characters.
\<close>

fun pieces :: "jstring \<Rightarrow> jstring list" where
  "pieces [] = [[]]"
| "pieces (c # cs) =
     (if isWhiteSpace c then [] # pieces cs
      else (case pieces cs of [] \<Rightarrow> [[c]] | t # ts \<Rightarrow> (c # t) # ts))"

definition tokens :: "jstring \<Rightarrow> jstring list" where
  "tokens s = filter (\<lambda>t. t \<noteq> []) (pieces s)"

section \<open>The lookup (dictionary.js)\<close>

text \<open>
  \<open>lookupFreeDictionary\<close>, \<open>lookupWiktionary\<close>, \<open>translateText\<close> and
  \<open>translateWithDeepSeek\<close> ask a service on the network and return what it gave or null
  (they catch every error): they are the fields of \<open>providers\<close>, one answer for each
  argument. A lookup returns its result and the list of the requests it made, in the order
  in which the source starts them.
\<close>

datatype source = FreeDictionary | Wiktionary | TranslationOnly | DeepSeek

record dictData =
  d_word :: jstring
  d_phonetic :: jstring
  d_audioUrl :: "jstring option"
  d_meanings :: "meaning list"
  d_source :: source
  d_originalWord :: "jstring option"

datatype langPair = EnZh | ZhEn

record providers =
  lookupFreeDictionary :: "jstring \<Rightarrow> dictData option"
  lookupWiktionary :: "jstring \<Rightarrow> dictData option"
  translateText :: "jstring \<Rightarrow> langPair \<Rightarrow> jstring option"
  translateWithDeepSeek :: "jstring \<Rightarrow> jstring option"

datatype call = CallFree jstring | CallWiki jstring | CallTranslate jstring langPair
  | CallLLM jstring

record lookupResult =
  r_dictData :: "dictData option"
  r_translation :: jstring
  r_inputType :: inputType

text \<open>The string that \<open>translateWord\<close> returns when there is no translation.\<close>

definition unavailable :: jstring where
  "unavailable = [0x7ffb, 0x8bd1, 0x6682, 0x4e0d, 0x53ef, 0x7528]"

definition translateWord :: "providers \<Rightarrow> jstring \<Rightarrow> jstring" where
  "translateWord P s = orStr (translateText P s EnZh) unavailable"

definition translateChineseToEnglish :: "providers \<Rightarrow> jstring \<Rightarrow> jstring option" where
  "translateChineseToEnglish P s = translateText P s ZhEn"

text \<open>
  \<open>translateDefinitions(meanings)\<close> sets \<open>translationZh\<close> in every definition, to the
  translation of its text or to the empty string; \<open>definitionCalls\<close> are its requests.
\<close>

definition translateDefinitions :: "providers \<Rightarrow> meaning list \<Rightarrow> meaning list" where
  "translateDefinitions P ms =
     map (\<lambda>m. m\<lparr> definitions :=
                  map (\<lambda>d. d\<lparr> translationZh :=
                                Some (orStr (translateText P (definition_text d) EnZh) []) \<rparr>)
                      (definitions m) \<rparr>) ms"

definition definitionCalls :: "meaning list \<Rightarrow> call list" where
  "definitionCalls ms =
     concat (map (\<lambda>m. map (\<lambda>d. CallTranslate (definition_text d) EnZh) (definitions m)) ms)"

definition createTranslationOnlyResult :: "(jstring \<Rightarrow> jstring) \<Rightarrow> jstring \<Rightarrow> dictData" where
  "createTranslationOnlyResult lc s =
     \<lparr> d_word = lc (trim s), d_phonetic = [], d_audioUrl = None, d_meanings = [],
       d_source = TranslationOnly, d_originalWord = None \<rparr>"

definition handleWordLookup ::
  "providers \<Rightarrow> (jstring \<Rightarrow> jstring) \<Rightarrow> jstring \<Rightarrow> lookupResult \<times> call list" where
  "handleWordLookup P lc w =
     (let dictData = lookupFreeDictionary P w;
          translation = translateWord P w;
          calls = [CallFree w, CallTranslate w EnZh]
      in case dictData of
           Some d \<Rightarrow>
             (\<lparr> r_dictData = Some (d\<lparr> d_meanings := translateDefinitions P (d_meanings d) \<rparr>),
                r_translation = translation, r_inputType = Word \<rparr>,
              calls @ definitionCalls (d_meanings d))
         | None \<Rightarrow>
             (case lookupWiktionary P w of
                Some wikiData \<Rightarrow>
                  (\<lparr> r_dictData = Some (wikiData\<lparr> d_meanings :=
                                            translateDefinitions P (d_meanings wikiData) \<rparr>),
                     r_translation = translation, r_inputType = Word \<rparr>,
                   calls @ [CallWiki w] @ definitionCalls (d_meanings wikiData))
              | None \<Rightarrow>
                  if translation \<noteq> [] \<and> translation \<noteq> unavailable
                  then (\<lparr> r_dictData = Some (createTranslationOnlyResult lc w),
                          r_translation = translation, r_inputType = Word \<rparr>,
                        calls @ [CallWiki w])
                  else (case translateWithDeepSeek P w of
                          None \<Rightarrow>
                            (\<lparr> r_dictData = None, r_translation = translation,
                               r_inputType = Word \<rparr>,
                             calls @ [CallWiki w, CallLLM w])
                        | Some deepSeekResult \<Rightarrow>
                            if deepSeekResult \<noteq> []
                            then (\<lparr> r_dictData = Some ((createTranslationOnlyResult lc w)
                                                        \<lparr> d_source := DeepSeek \<rparr>),
                                    r_translation = deepSeekResult, r_inputType = Word \<rparr>,
                                  calls @ [CallWiki w, CallLLM w])
                            else (\<lparr> r_dictData = None, r_translation = translation,
                                    r_inputType = Word \<rparr>,
                                  calls @ [CallWiki w, CallLLM w]))))"

definition handlePhraseLookup ::
  "providers \<Rightarrow> (jstring \<Rightarrow> jstring) \<Rightarrow> jstring \<Rightarrow> lookupResult \<times> call list" where
  "handlePhraseLookup P lc phrase =
     (let wikiData = lookupWiktionary P phrase;
          translation = translateWord P phrase;
          calls = [CallWiki phrase, CallTranslate phrase EnZh]
      in case wikiData of
           Some wd \<Rightarrow>
             (\<lparr> r_dictData = Some (wd\<lparr> d_meanings := translateDefinitions P (d_meanings wd) \<rparr>),
                r_translation = translation, r_inputType = Phrase \<rparr>,
              calls @ definitionCalls (d_meanings wd))
         | None \<Rightarrow>
             (case lookupFreeDictionary P phrase of
                Some dictData \<Rightarrow>
                  (\<lparr> r_dictData = Some (dictData\<lparr> d_meanings :=
                                            translateDefinitions P (d_meanings dictData) \<rparr>),
                     r_translation = translation, r_inputType = Phrase \<rparr>,
                   calls @ [CallFree phrase] @ definitionCalls (d_meanings dictData))
              | None \<Rightarrow>
                  if translation \<noteq> [] \<and> translation \<noteq> unavailable
                  then (\<lparr> r_dictData = Some (createTranslationOnlyResult lc phrase),
                          r_translation = translation, r_inputType = Phrase \<rparr>,
                        calls @ [CallFree phrase])
                  else (case translateWithDeepSeek P phrase of
                          None \<Rightarrow>
                            (\<lparr> r_dictData = None, r_translation = translation,
                               r_inputType = Phrase \<rparr>,
                             calls @ [CallFree phrase, CallLLM phrase])
                        | Some deepSeekResult \<Rightarrow>
                            if deepSeekResult \<noteq> []
                            then (\<lparr> r_dictData = Some ((createTranslationOnlyResult lc phrase)
                                                        \<lparr> d_source := DeepSeek \<rparr>),
                                    r_translation = deepSeekResult, r_inputType = Phrase \<rparr>,
                                  calls @ [CallFree phrase, CallLLM phrase])
                            else (\<lparr> r_dictData = None, r_translation = translation,
                                    r_inputType = Phrase \<rparr>,
                                  calls @ [CallFree phrase, CallLLM phrase]))))"

text \<open>
  \<open>.replace(/[.!?,;:]+$/, '')\<close>: the first position from which only characters of the
  class follow, up to the end, starts the match; the match is removed.
\<close>

definition isPunct :: "nat \<Rightarrow> bool" where
  "isPunct c = (c \<in> set [46, 33, 63, 44, 59, 58])"

fun stripTrailing :: "jstring \<Rightarrow> jstring" where
  "stripTrailing [] = []"
| "stripTrailing (c # cs) = (if list_all isPunct (c # cs) then [] else c # stripTrailing cs)"

definition truthy :: "jstring option \<Rightarrow> bool" where
  "truthy a = (case a of None \<Rightarrow> False | Some s \<Rightarrow> s \<noteq> [])"

definition handleChineseLookup ::
  "providers \<Rightarrow> (jstring \<Rightarrow> jstring) \<Rightarrow> jstring \<Rightarrow> lookupResult \<times> call list" where
  "handleChineseLookup P lc chineseText =
     (let first = translateChineseToEnglish P chineseText;
          calls1 = [CallTranslate chineseText ZhEn];
          englishTranslation = (if truthy first then first
                                else translateWithDeepSeek P chineseText);
          calls2 = (if truthy first then calls1 else calls1 @ [CallLLM chineseText])
      in if \<not> truthy englishTranslation
         then (\<lparr> r_dictData = Some (createTranslationOnlyResult lc chineseText),
                 r_translation = chineseText, r_inputType = Chinese \<rparr>, calls2)
         else
           (let english = orStr englishTranslation [];
                englishWord = stripTrailing (trim (lc english));
                free = lookupFreeDictionary P englishWord;
                dictData = (case free of None \<Rightarrow> lookupWiktionary P englishWord
                            | Some d \<Rightarrow> Some d);
                calls3 = calls2 @ [CallFree englishWord]
                           @ (case free of None \<Rightarrow> [CallWiki englishWord] | Some d \<Rightarrow> []);
                result = (case dictData of
                            Some d \<Rightarrow> d\<lparr> d_word := chineseText,
                                         d_originalWord := Some (d_word d) \<rparr>
                          | None \<Rightarrow> createTranslationOnlyResult lc chineseText)
            in (\<lparr> r_dictData = Some result, r_translation = english,
                  r_inputType = Chinese \<rparr>, calls3)))"

definition lookupWord ::
  "providers \<Rightarrow> (jstring \<Rightarrow> jstring) \<Rightarrow> jstring \<Rightarrow> lookupResult \<times> call list" where
  "lookupWord P lc input =
     (let inputType = detectInputType input; trimmed = trim input
      in case inputType of
           Chinese \<Rightarrow> handleChineseLookup P lc trimmed
         | Phrase \<Rightarrow> handlePhraseLookup P lc trimmed
         | Word \<Rightarrow> handleWordLookup P lc trimmed)"

section \<open>The tier lists of the specification\<close>

text \<open>
  The tiers in the words of the specification, the record that each tier yields for a
  query, and the request that an attempt of the tier makes of its own (the translation
  that \<open>TranslationOnly\<close> uses was requested together with the first dictionary request).
  \<open>firstHit\<close> is the record of the first tier of a list that yields one; \<open>attempted\<close> are
  the tiers of the list up to and including that tier.
\<close>

datatype tier = PrimaryDictionary | SecondaryDictionary | TranslationOnlyTier | LLMFallback

fun tierList :: "inputType \<Rightarrow> tier list" where
  "tierList Word = [PrimaryDictionary, SecondaryDictionary, TranslationOnlyTier, LLMFallback]"
| "tierList Phrase = [SecondaryDictionary, PrimaryDictionary, TranslationOnlyTier, LLMFallback]"
| "tierList Chinese = []"

fun tierRecord :: "providers \<Rightarrow> (jstring \<Rightarrow> jstring) \<Rightarrow> jstring \<Rightarrow> tier \<Rightarrow> dictData option" where
  "tierRecord P lc q PrimaryDictionary = lookupFreeDictionary P q"
| "tierRecord P lc q SecondaryDictionary = lookupWiktionary P q"
| "tierRecord P lc q TranslationOnlyTier =
     (if truthy (translateText P q EnZh) \<and> translateText P q EnZh \<noteq> Some unavailable
      then Some (createTranslationOnlyResult lc q) else None)"
| "tierRecord P lc q LLMFallback =
     (if truthy (translateWithDeepSeek P q)
      then Some ((createTranslationOnlyResult lc q)\<lparr> d_source := DeepSeek \<rparr>) else None)"

fun tierCalls :: "jstring \<Rightarrow> tier \<Rightarrow> call list" where
  "tierCalls q PrimaryDictionary = [CallFree q]"
| "tierCalls q SecondaryDictionary = [CallWiki q]"
| "tierCalls q TranslationOnlyTier = []"
| "tierCalls q LLMFallback = [CallLLM q]"

fun firstHit :: "(tier \<Rightarrow> dictData option) \<Rightarrow> tier list \<Rightarrow> dictData option" where
  "firstHit f [] = None"
| "firstHit f (t # ts) = (case f t of Some d \<Rightarrow> Some d | None \<Rightarrow> firstHit f ts)"

fun attempted :: "(tier \<Rightarrow> dictData option) \<Rightarrow> tier list \<Rightarrow> tier list" where
  "attempted f [] = []"
| "attempted f (t # ts) = t # (case f t of Some d \<Rightarrow> [] | None \<Rightarrow> attempted f ts)"

fun isTierCall :: "call \<Rightarrow> bool" where
  "isTierCall (CallTranslate s p) = False"
| "isTierCall _ = True"

text \<open>
  \<open>annotated\<close> is what \<open>translateDefinitions\<close> does to a record; \<open>withoutZh\<close> forgets the
  field \<open>translationZh\<close> of every definition.
\<close>

definition withoutZh :: "dictData \<Rightarrow> dictData" where
  "withoutZh d =
     d\<lparr> d_meanings :=
          map (\<lambda>m. m\<lparr> definitions := map (\<lambda>x. x\<lparr> translationZh := None \<rparr>) (definitions m) \<rparr>)
              (d_meanings d) \<rparr>"

definition annotated :: "providers \<Rightarrow> dictData \<Rightarrow> dictData" where
  "annotated P d = d\<lparr> d_meanings := translateDefinitions P (d_meanings d) \<rparr>"

text \<open>
  For a Chinese text: the English translation after the fallback to the language model,
  the nested dictionary lookup, and the lookup key in the words of the specification
  (lower-case, trim, drop the trailing run of \<open>. ! ? , ; :\<close>).
\<close>

definition englishFor :: "providers \<Rightarrow> jstring \<Rightarrow> jstring option" where
  "englishFor P chineseText =
     (if truthy (translateChineseToEnglish P chineseText)
      then translateChineseToEnglish P chineseText
      else translateWithDeepSeek P chineseText)"

definition nestedLookup :: "providers \<Rightarrow> jstring \<Rightarrow> dictData option" where
  "nestedLookup P key =
     (case lookupFreeDictionary P key of None \<Rightarrow> lookupWiktionary P key | Some d \<Rightarrow> Some d)"

definition bridgeKey :: "(jstring \<Rightarrow> jstring) \<Rightarrow> jstring \<Rightarrow> jstring" where
  "bridgeKey lc english = rev (dropWhile isPunct (rev (trim (lc english))))"

fun isDictCall :: "call \<Rightarrow> bool" where
  "isDictCall (CallFree s) = True"
| "isDictCall (CallWiki s) = True"
| "isDictCall _ = False"

section \<open>Sequences of store operations\<close>

text \<open>
  The operations that write the store: \<open>saveWord\<close>, \<open>markAsReviewed\<close> and \<open>importWords\<close>,
  each with what it reads from the clock.
\<close>

datatype operation =
    Save wordData int
  | Review jstring bool int
  | Import payload "nat \<Rightarrow> int"

fun exec :: "(jstring \<Rightarrow> jstring) \<Rightarrow> operation \<Rightarrow> store \<Rightarrow> store" where
  "exec lc (Save wordData now) st = saveWord lc now wordData st"
| "exec lc (Review w remembered now) st = fst (markAsReviewed lc now w remembered st)"
| "exec lc (Import data clock) st = fst (importWords lc clock data st)"

fun run :: "(jstring \<Rightarrow> jstring) \<Rightarrow> operation list \<Rightarrow> store \<Rightarrow> store" where
  "run lc [] st = st"
| "run lc (x # xs) st = run lc xs (exec lc x st)"

definition levelOk :: "int \<Rightarrow> bool" where
  "levelOk lv = (0 \<le> lv \<and> lv \<le> 6)"

definition levelsOk :: "store \<Rightarrow> bool" where
  "levelsOk st = list_all (\<lambda>r. levelOk (level r)) st"

text \<open>The records of a parsed file, as \<open>importWords\<close> takes them.\<close>

definition recordsOf :: "payload \<Rightarrow> entry list" where
  "recordsOf data = (case data of JArray es \<Rightarrow> es | JObject (WordsArray es) \<Rightarrow> es | _ \<Rightarrow> [])"

text \<open>A file record gives no level, or a level in 0..6.\<close>

definition entryLevelOk :: "entry \<Rightarrow> bool" where
  "entryLevelOk e = (case j_level e of None \<Rightarrow> True | Some lv \<Rightarrow> levelOk lv)"

fun operationOk :: "operation \<Rightarrow> bool" where
  "operationOk (Import data clock) = list_all entryLevelOk (recordsOf data)"
| "operationOk _ = True"

text \<open>The key under which a file record with a word is stored.\<close>

definition keyOf :: "(jstring \<Rightarrow> jstring) \<Rightarrow> entry \<Rightarrow> jstring" where
  "keyOf lc e = lc (orStr (j_word e) [])"

definition hasWord :: "entry \<Rightarrow> bool" where
  "hasWord e = (orStr (j_word e) [] \<noteq> [])"

text \<open>A file record whose key is already in the store.\<close>

definition knownIn :: "(jstring \<Rightarrow> jstring) \<Rightarrow> store \<Rightarrow> entry \<Rightarrow> bool" where
  "knownIn lc st e = (get (keyOf lc e) st \<noteq> None)"

text \<open>
  The import policy in the words of the amended claim. \<open>firstFor lc k i es\<close> is the first
  record of the file with a word whose key is \<open>k\<close>, with its index (the records are
  numbered from \<open>i\<close>). \<open>newKeys\<close> are the keys of the records with a word that are not in
  the store, each once. \<open>persistedFrom lc now e r\<close>: the stored record \<open>r\<close> carries the
  lower-cased word of the file record \<open>e\<close> and, for every other property but \<open>audioUrl\<close>,
  the value of \<open>e\<close> where it is truthy and the default where it is not.
\<close>

fun firstFor ::
  "(jstring \<Rightarrow> jstring) \<Rightarrow> jstring \<Rightarrow> nat \<Rightarrow> entry list \<Rightarrow> (nat \<times> entry) option" where
  "firstFor lc k i [] = None"
| "firstFor lc k i (e # es) =
     (if hasWord e \<and> keyOf lc e = k then Some (i, e) else firstFor lc k (Suc i) es)"

definition newKeys :: "(jstring \<Rightarrow> jstring) \<Rightarrow> store \<Rightarrow> entry list \<Rightarrow> jstring list" where
  "newKeys lc st es =
     remdups (map (keyOf lc) (filter (\<lambda>e. hasWord e \<and> \<not> knownIn lc st e) es))"

definition persistedFrom :: "(jstring \<Rightarrow> jstring) \<Rightarrow> int \<Rightarrow> entry \<Rightarrow> wordRec \<Rightarrow> bool" where
  "persistedFrom lc now e r =
     (word r = keyOf lc e
      \<and> phonetic r = orStr (j_phonetic e) []
      \<and> meanings r = orArr (j_meanings e) []
      \<and> translation r = orStr (j_translation e) []
      \<and> addedAt r = orNum (j_addedAt e) now
      \<and> nextReviewAt r = Some (orNum (j_nextReviewAt e) (now + day))
      \<and> reviewCount r = orNum (j_reviewCount e) 0
      \<and> level r = orNum (j_level e) 0
      \<and> lastReviewedAt r = (case j_lastReviewedAt e of None \<Rightarrow> None
                              | Some t \<Rightarrow> if t = 0 then None else Some t))"

text \<open>
  Export followed by the import of the exported records into an empty store: the store
  that results, or the error of the step that threw.
\<close>

definition roundTrip ::
  "(jstring \<Rightarrow> jstring) \<Rightarrow> int \<Rightarrow> (nat \<Rightarrow> int) \<Rightarrow> store \<Rightarrow> error + store" where
  "roundTrip lc now clock st =
     (case exportAllWords now st of
        Inl err \<Rightarrow> Inl err
      | Inr x \<Rightarrow>
          (case importWords lc clock (JObject (WordsArray (words x))) [] of
             (st', Inl err) \<Rightarrow> Inl err
           | (st', Inr c) \<Rightarrow> Inr st'))"

section \<open>Concrete inputs\<close>

text \<open>
  The inputs at which the theorems below are evaluated: a clock that stands still, file
  records and stored records with every property set, a store with one word that has a
  recording, ten file records of which three are stored already, a file record with a
  capital letter in its word and a \<open>nextReviewAt\<close> of 0, a sequence of operations, a
  file record at level 7, two file records \<open>B\<close> and \<open>b\<close>, the strings \<open>run\<close>, \<open>hello\<close>,
  \<open>Hello.\<close>, the Chinese greeting and \<open>multi word phrase\<close>, the string \<open>Hello.!\<close> with a
  space before and after, providers that know \<open>run\<close>, \<open>hello\<close> and the phrase, providers
  that translate the greeting to the padded string and know \<open>hello\<close>, providers that
  translate the greeting to \<open>Hello.\<close> and know no word, and providers that answer nothing.
\<close>

definition fixedClock :: "nat \<Rightarrow> int" where
  "fixedClock i = 1000"

definition sampleEntry :: "jstring \<Rightarrow> int \<Rightarrow> entry" where
  "sampleEntry w lv =
     \<lparr> j_word = Some w, j_phonetic = Some [47], j_audioUrl = None, j_meanings = Some [],
       j_translation = Some [20320], j_addedAt = Some 100, j_nextReviewAt = Some 500,
       j_reviewCount = Some 2, j_level = Some lv, j_lastReviewedAt = Some 400 \<rparr>"

definition sampleRec :: "jstring \<Rightarrow> int \<Rightarrow> wordRec" where
  "sampleRec w lv =
     \<lparr> word = w, phonetic = [], audioUrl = None, meanings = [], translation = [],
       addedAt = 5, nextReviewAt = Some 9, reviewCount = 4, level = lv,
       lastReviewedAt = None \<rparr>"

definition audioStore :: store where
  "audioStore = saveWord asciiLower 1000
     \<lparr> wd_word = [104, 105], wd_phonetic = None, wd_audioUrl = Some [97, 46, 109, 112, 51],
       wd_meanings = None, wd_translation = None \<rparr> []"

definition tenEntries :: "entry list" where
  "tenEntries = map (\<lambda>k. sampleEntry [k] 3) [97, 98, 99, 100, 101, 102, 103, 104, 105, 106]"

definition threeRecs :: store where
  "threeRecs = [sampleRec [98] 5, sampleRec [100] 1, sampleRec [106] 6]"

definition capitalEntry :: entry where
  "capitalEntry =
     \<lparr> j_word = Some [72, 105], j_phonetic = Some [47], j_audioUrl = None,
       j_meanings = Some [], j_translation = Some [20320], j_addedAt = Some 100,
       j_nextReviewAt = Some 0, j_reviewCount = Some 2, j_level = Some 3,
       j_lastReviewedAt = Some 400 \<rparr>"

definition sampleOps :: "operation list" where
  "sampleOps =
     [Save \<lparr> wd_word = [72, 105], wd_phonetic = None, wd_audioUrl = None, wd_meanings = None,
             wd_translation = None \<rparr> 1000,
      Import (JArray [sampleEntry [103, 111] 6]) fixedClock,
      Review [104, 105] True 2000,
      Review [103, 111] True 3000]"

definition level7Entry :: entry where
  "level7Entry = sampleEntry [103, 111] 7"

definition dupEntries :: "entry list" where
  "dupEntries = [sampleEntry [66] 3, sampleEntry [98] 4]"

definition str_run :: jstring where "str_run = [114, 117, 110]"
definition str_hello :: jstring where "str_hello = [104, 101, 108, 108, 111]"
definition str_HelloDot :: jstring where "str_HelloDot = [72, 101, 108, 108, 111, 46]"
definition str_nihao :: jstring where "str_nihao = [20320, 22909]"
definition str_phrase :: jstring where
  "str_phrase = [109, 117, 108, 116, 105, 32, 119, 111, 114, 100, 32, 112, 104, 114, 97, 115, 101]"

definition sampleDict :: "jstring \<Rightarrow> source \<Rightarrow> dictData" where
  "sampleDict w s =
     \<lparr> d_word = w, d_phonetic = [], d_audioUrl = None,
       d_meanings = [\<lparr> partOfSpeech = [118, 101, 114, 98],
                       definitions = [\<lparr> definition_text = [109, 111, 118, 101],
                                         examples = [], translationZh = None \<rparr>],
                       synonyms = [] \<rparr>],
       d_source = s, d_originalWord = None \<rparr>"

definition sampleProviders :: providers where
  "sampleProviders =
     \<lparr> lookupFreeDictionary =
         (\<lambda>q. if q = str_run \<or> q = str_hello then Some (sampleDict q FreeDictionary) else None),
       lookupWiktionary =
         (\<lambda>q. if q = str_phrase then Some (sampleDict q Wiktionary) else None),
       translateText =
         (\<lambda>q p. if p = ZhEn \<and> q = str_nihao then Some str_HelloDot
                else if p = EnZh \<and> q = str_run then Some [36305] else None),
       translateWithDeepSeek = (\<lambda>q. None) \<rparr>"

definition noProviders :: providers where
  "noProviders =
     \<lparr> lookupFreeDictionary = (\<lambda>q. None), lookupWiktionary = (\<lambda>q. None),
       translateText = (\<lambda>q p. None), translateWithDeepSeek = (\<lambda>q. None) \<rparr>"

definition str_padded :: jstring where
  "str_padded = [32, 72, 101, 108, 108, 111, 46, 33, 32]"

definition paddedProviders :: providers where
  "paddedProviders =
     \<lparr> lookupFreeDictionary =
         (\<lambda>q. if q = str_hello then Some (sampleDict q FreeDictionary) else None),
       lookupWiktionary = (\<lambda>q. None),
       translateText = (\<lambda>q p. if p = ZhEn \<and> q = str_nihao then Some str_padded else None),
       translateWithDeepSeek = (\<lambda>q. None) \<rparr>"

definition translatorOnly :: providers where
  "translatorOnly =
     \<lparr> lookupFreeDictionary = (\<lambda>q. None), lookupWiktionary = (\<lambda>q. None),
       translateText = (\<lambda>q p. if p = ZhEn \<and> q = str_nihao then Some str_HelloDot else None),
       translateWithDeepSeek = (\<lambda>q. None) \<rparr>"

section \<open>Facts about the store\<close>

lemmas eval_defs = lookupWord_def handleWordLookup_def handlePhraseLookup_def
  handleChineseLookup_def detectInputType_def trim_def splitWhiteSpace_def isWhiteSpace_def
  isCJK_def translateWord_def translateChineseToEnglish_def translateDefinitions_def
  definitionCalls_def createTranslationOnlyResult_def truthy_def orStr_def unavailable_def
  asciiLower_def isPunct_def sampleProviders_def noProviders_def sampleDict_def
  str_run_def str_hello_def str_HelloDot_def str_nihao_def str_phrase_def Let_def


lemma get_put: "get k (put r st) = (if k = word r then Some r else get k st)"
  by (induction st) (auto simp: get_def)

lemma getNextReviewDate_interval:
  assumes "0 \<le> lv" and "lv \<le> 6"
  shows "getNextReviewDate now lv = Some (now + interval_days lv * day)"
proof -
  from assms have "lv = 0 \<or> lv = 1 \<or> lv = 2 \<or> lv = 3 \<or> lv = 4 \<or> lv = 5 \<or> lv = 6"
    by arith
  then show ?thesis
    by (elim disjE)
       (simp_all add: getNextReviewDate_def REVIEW_INTERVALS_def interval_days_def day_def)
qed

lemma find_word: "find (\<lambda>r. word r = k) st = Some e \<Longrightarrow> word e = k"
  by (induction st) (auto split: if_splits)

lemma length_REVIEW_INTERVALS: "int (length REVIEW_INTERVALS) = 6"
  by (simp add: REVIEW_INTERVALS_def)

lemma interval_days_pos: "0 < interval_days lv * day"
  by (simp add: interval_days_def day_def)

section \<open>The review transition\<close>

text \<open>
  Claim C4. For a stored word whose level is in 0..6, \<open>markAsReviewed\<close> at the instant
  \<open>now\<close> returns and stores a record whose level is \<open>min (level + 1) 6\<close> when the word was
  remembered and 0 otherwise, whose \<open>reviewCount\<close> is one more, whose \<open>lastReviewedAt\<close> is
  \<open>now\<close> and whose \<open>nextReviewAt\<close> is \<open>now\<close> plus the interval of the new level (1, 2, 4,
  7, 15, 30 days for the levels 0 to 5, 60 days for level 6); that instant is strictly
  after \<open>now\<close>.
\<close>

theorem markAsReviewed_transition:
  assumes found: "getWord lc w st = Some e"
    and lo: "0 \<le> level e" and hi: "level e \<le> 6"
  shows "\<exists>e'. snd (markAsReviewed lc now w remembered st) = Some e'
       \<and> getWord lc w (fst (markAsReviewed lc now w remembered st)) = Some e'
       \<and> level e' = (if remembered then min (level e + 1) 6 else 0)
       \<and> reviewCount e' = reviewCount e + 1
       \<and> lastReviewedAt e' = Some now
       \<and> nextReviewAt e' = Some (now + interval_days (level e') * day)
       \<and> now < now + interval_days (level e') * day"
proof -
  define nl where "nl = (if remembered then min (level e + 1) 6 else 0)"
  define e' where "e' = e\<lparr> level := nl, reviewCount := reviewCount e + 1,
      nextReviewAt := getNextReviewDate now nl, lastReviewedAt := Some now \<rparr>"
  have nl: "0 \<le> nl" "nl \<le> 6"
    using lo hi by (auto simp: nl_def)
  have f: "find (\<lambda>r. word r = lc w) st = Some e"
    using found by (simp add: getWord_def get_def)
  have we: "word e = lc w"
    using f by (rule find_word)
  have m: "markAsReviewed lc now w remembered st = (put e' st, Some e')"
    using f
    by (simp add: markAsReviewed_def getAllWords_def updateWord_def get_def Let_def
        length_REVIEW_INTERVALS nl_def e'_def)
  have stored: "getWord lc w (put e' st) = Some e'"
    using we by (simp add: getWord_def get_put e'_def)
  have nxt: "nextReviewAt e' = Some (now + interval_days (level e') * day)"
    using nl by (simp add: e'_def getNextReviewDate_interval)
  have "level e' = nl" "reviewCount e' = reviewCount e + 1" "lastReviewedAt e' = Some now"
    by (simp_all add: e'_def)
  with m stored nxt interval_days_pos [of "level e'"] show ?thesis
    by (auto simp: nl_def)
qed

text \<open>
  An instance: the word \<open>hi\<close> stored at level 3 and forgotten at the instant 1000 goes
  back to level 0 and is due one day later.
\<close>

theorem markAsReviewed_transition_witness:
  "getWord asciiLower [104, 105]
     [\<lparr> word = [104, 105], phonetic = [], audioUrl = None, meanings = [], translation = [],
        addedAt = 5, nextReviewAt = Some 9, reviewCount = 4, level = 3,
        lastReviewedAt = None \<rparr>]
   = Some \<lparr> word = [104, 105], phonetic = [], audioUrl = None, meanings = [],
            translation = [], addedAt = 5, nextReviewAt = Some 9, reviewCount = 4, level = 3,
            lastReviewedAt = None \<rparr>
   \<and> (\<exists>e'. snd (markAsReviewed asciiLower 1000 [104, 105] False
               [\<lparr> word = [104, 105], phonetic = [], audioUrl = None, meanings = [],
                  translation = [], addedAt = 5, nextReviewAt = Some 9, reviewCount = 4,
                  level = 3, lastReviewedAt = None \<rparr>]) = Some e'
          \<and> level e' = 0 \<and> reviewCount e' = 5 \<and> lastReviewedAt e' = Some 1000
          \<and> nextReviewAt e' = Some (1000 + 1 * day))"
proof -
  let ?e = "\<lparr> word = [104, 105], phonetic = [], audioUrl = None, meanings = [],
      translation = [], addedAt = 5, nextReviewAt = Some 9, reviewCount = 4, level = 3,
      lastReviewedAt = None \<rparr>"
  have h: "getWord asciiLower [104, 105] [?e] = Some ?e"
    by (simp add: getWord_def get_def asciiLower_def)
  have lo: "0 \<le> level ?e" and hi: "level ?e \<le> 6"
    by simp_all
  from markAsReviewed_transition [OF h lo hi, of 1000 False] h show ?thesis
    by (auto simp: interval_days_def)
qed

section \<open>Saving a word\<close>

text \<open>
  Claim C10. After \<open>saveWord(wordData)\<close> at the instant \<open>now\<close>, whatever the store held
  before (a record with the same key included), the record stored under the lower-cased
  word has level 0, review count 0, \<open>addedAt = now\<close> and \<open>nextReviewAt\<close> one day after
  \<open>now\<close>: the review progress of an existing record is reset.
\<close>

theorem saveWord_resets:
  "\<exists>r. getWord lc (wd_word wordData) (saveWord lc now wordData st) = Some r
       \<and> word r = lc (wd_word wordData)
       \<and> level r = 0 \<and> reviewCount r = 0 \<and> addedAt r = now
       \<and> nextReviewAt r = Some (now + day) \<and> lastReviewedAt r = None"
  by (simp add: getWord_def saveWord_def get_put day_def)

text \<open>
  An instance: \<open>hi\<close> is stored at level 5 with 9 reviews; saving \<open>Hi\<close> again at the
  instant 1000 leaves it at level 0 with no review.
\<close>

theorem saveWord_resets_witness:
  "getWord asciiLower [72, 105]
     (saveWord asciiLower 1000
        \<lparr> wd_word = [72, 105], wd_phonetic = None, wd_audioUrl = None, wd_meanings = None,
          wd_translation = None \<rparr>
        [\<lparr> word = [104, 105], phonetic = [], audioUrl = None, meanings = [],
           translation = [], addedAt = 5, nextReviewAt = Some 9, reviewCount = 9, level = 5,
           lastReviewedAt = Some 7 \<rparr>])
   = Some \<lparr> word = [104, 105], phonetic = [], audioUrl = None, meanings = [],
            translation = [], addedAt = 1000, nextReviewAt = Some (1000 + day),
            reviewCount = 0, level = 0, lastReviewedAt = None \<rparr>"
  using saveWord_resets [of asciiLower "\<lparr> wd_word = [72, 105], wd_phonetic = None,
      wd_audioUrl = None, wd_meanings = None, wd_translation = None \<rparr>" 1000
      "[\<lparr> word = [104, 105], phonetic = [], audioUrl = None, meanings = [],
         translation = [], addedAt = 5, nextReviewAt = Some 9, reviewCount = 9, level = 5,
         lastReviewedAt = Some 7 \<rparr>]"]
  by (simp add: getWord_def saveWord_def get_def asciiLower_def orStr_def orArr_def day_def)

section \<open>Import of a file without records\<close>

text \<open>
  Claim C7. A file that is not JSON, and a file whose set of records is empty (an empty
  array, an object whose \<open>words\<close> is an empty array or is missing), make \<open>importWords\<close>
  throw an error; the store is left exactly as it was.
\<close>

theorem importWords_rejects_empty:
  "importWords lc clock Unparsable st = (st, Inl ParseError)
   \<and> importWords lc clock (JArray []) st = (st, Inl NoWordsFound)
   \<and> importWords lc clock (JObject (WordsArray [])) st = (st, Inl NoWordsFound)
   \<and> importWords lc clock (JObject WordsMissing) st = (st, Inl NoWordsFound)"
  by (simp add: importWords_def)

section \<open>Facts about the import loop\<close>

lemma importEntry_cases:
  "importEntry lc now e (st, c) =
     (if \<not> hasWord e then (st, c)
      else if get (keyOf lc e) st \<noteq> None then (st, c\<lparr> skipped := skipped c + 1 \<rparr>)
      else (put (importedRecord lc now e (orStr (j_word e) [])) st, c\<lparr> imported := imported c + 1 \<rparr>))"
  by (auto simp: importEntry_def hasWord_def keyOf_def orStr_def getWord_def Let_def split: option.splits)

lemma word_importedRecord: "word (importedRecord lc now e w) = lc w"
  by (simp add: importedRecord_def)

lemma persistedFrom_importedRecord:
  "persistedFrom lc now e (importedRecord lc now e (orStr (j_word e) []))"
  by (simp add: persistedFrom_def importedRecord_def keyOf_def day_def)

lemma importLoop_store:
  "get k (fst (importLoop lc clock i es (st, c)))
     = (case get k st of
          Some r \<Rightarrow> Some r
        | None \<Rightarrow> map_option (\<lambda>(j, e). importedRecord lc (clock j) e (orStr (j_word e) []))
                    (firstFor lc k i es))"
proof (induction es arbitrary: st c i)
  case Nil
  then show ?case by (simp split: option.splits)
next
  case (Cons e es)
  obtain st1 c1 where s: "importEntry lc (clock i) e (st, c) = (st1, c1)"
    by (cases "importEntry lc (clock i) e (st, c)")
  have step: "importLoop lc clock i (e # es) (st, c) = importLoop lc clock (Suc i) es (st1, c1)"
    using s by simp
  show ?case
  proof (cases "hasWord e \<and> keyOf lc e = k")
    case False
    then have "get k st1 = get k st"
      using s by (auto simp: importEntry_cases get_put word_importedRecord keyOf_def
          split: if_splits)
    moreover from False have "firstFor lc k i (e # es) = firstFor lc k (Suc i) es"
      by auto
    ultimately show ?thesis
      by (simp only: step Cons.IH)
  next
    case True
    show ?thesis
    proof (cases "get k st")
      case None
      with True s have "get k st1 = Some (importedRecord lc (clock i) e (orStr (j_word e) []))"
        by (auto simp: importEntry_cases get_put word_importedRecord keyOf_def)
      moreover from True have "firstFor lc k i (e # es) = Some (i, e)"
        by simp
      ultimately show ?thesis
        using None by (simp only: step Cons.IH) simp
    next
      case (Some r)
      with True s have "get k st1 = Some r"
        by (auto simp: importEntry_cases)
      with Some show ?thesis
        by (simp only: step Cons.IH) simp
    qed
  qed
qed

lemma length_newKeys:
  "length (newKeys lc st es)
     = card {k. \<exists>e\<in>set es. hasWord e \<and> \<not> knownIn lc st e \<and> keyOf lc e = k}"
proof -
  have "set (map (keyOf lc) (filter (\<lambda>e. hasWord e \<and> \<not> knownIn lc st e) es))
      = {k. \<exists>e\<in>set es. hasWord e \<and> \<not> knownIn lc st e \<and> keyOf lc e = k}"
    by auto
  then show ?thesis
    by (simp only: newKeys_def length_remdups_card_conv)
qed

lemma importLoop_counts:
  "imported (snd (importLoop lc clock i es (st, c))) = imported c + length (newKeys lc st es)
   \<and> imported (snd (importLoop lc clock i es (st, c)))
       + skipped (snd (importLoop lc clock i es (st, c)))
     = imported c + skipped c + length (filter hasWord es)"
proof (induction es arbitrary: st c i)
  case Nil
  then show ?case by (simp add: newKeys_def)
next
  case (Cons e es)
  obtain st1 c1 where s: "importEntry lc (clock i) e (st, c) = (st1, c1)"
    by (cases "importEntry lc (clock i) e (st, c)")
  have step: "importLoop lc clock i (e # es) (st, c) = importLoop lc clock (Suc i) es (st1, c1)"
    using s by simp
  let ?K = "\<lambda>st es. {k. \<exists>x\<in>set es. hasWord x \<and> \<not> knownIn lc st x \<and> keyOf lc x = k}"
  have fin: "finite (?K st1 es)"
    by simp
  consider (noword) "\<not> hasWord e" | (known) "hasWord e" "knownIn lc st e"
    | (fresh) "hasWord e" "\<not> knownIn lc st e"
    by blast
  then have "imported c1 + length (newKeys lc st1 es) = imported c + length (newKeys lc st (e # es))
      \<and> imported c1 + skipped c1 + length (filter hasWord es)
          = imported c + skipped c + length (filter hasWord (e # es))"
  proof cases
    case noword
    with s have "st1 = st" "c1 = c"
      by (auto simp: importEntry_cases)
    with noword show ?thesis
      by (simp add: newKeys_def)
  next
    case known
    with s have "st1 = st" "c1 = c\<lparr> skipped := skipped c + 1 \<rparr>"
      by (auto simp: importEntry_cases knownIn_def)
    with known show ?thesis
      by (simp add: newKeys_def)
  next
    case fresh
    with s have st1: "st1 = put (importedRecord lc (clock i) e (orStr (j_word e) [])) st"
      and c1: "c1 = c\<lparr> imported := imported c + 1 \<rparr>"
      by (auto simp: importEntry_cases knownIn_def)
    have kn: "knownIn lc st1 x = (knownIn lc st x \<or> keyOf lc x = keyOf lc e)" for x
      using fresh(2)
      by (auto simp: st1 knownIn_def get_put word_importedRecord keyOf_def)
    have "?K st (e # es) = insert (keyOf lc e) (?K st1 es)"
      using fresh by (auto simp: kn)
    moreover have "keyOf lc e \<notin> ?K st1 es"
      by (auto simp: kn)
    ultimately have "card (?K st (e # es)) = Suc (card (?K st1 es))"
      using fin by simp
    with fresh c1 show ?thesis
      by (simp add: length_newKeys)
  qed
  with Cons.IH [of "Suc i" st1 c1] show ?case
    by (simp only: step) simp
qed

section \<open>The import policy\<close>

text \<open>
  Claim C5, as amended. For every import of a file with at least one record, the records
  being handled in their order: a record whose lower-cased word is a key of the store (from
  before the import or from an earlier record of the file) leaves the store as it is and
  adds one to \<open>skipped\<close>; a record with a word whose key is new is stored under its
  lower-cased word, with \<open>phonetic\<close>, \<open>meanings\<close>, \<open>translation\<close>, \<open>addedAt\<close>,
  \<open>nextReviewAt\<close>, \<open>reviewCount\<close>, \<open>level\<close> and \<open>lastReviewedAt\<close> of the file record
  where they are truthy and the defaults (empty string, empty list, the instant of the
  import, one day later, 0, 0, null) where they are not, and adds one to \<open>imported\<close>; a
  record without a word is passed over. So: \<open>imported\<close> is the number of different new
  keys, \<open>imported + skipped\<close> is the number of records with a word, every record that was
  in the store is still there unchanged, and a key that was not in the store holds
  afterwards what the first record of the file with that key gave, or nothing.
\<close>

theorem import_policy:
  assumes ne: "es \<noteq> []"
    and data: "data = JArray es \<or> data = JObject (WordsArray es)"
  shows "\<exists>st' c. importWords lc clock data st = (st', Inr c)
       \<and> imported c = length (newKeys lc st es)
       \<and> skipped c = length (filter hasWord es) - length (newKeys lc st es)
       \<and> (\<forall>k r. get k st = Some r \<longrightarrow> get k st' = Some r)
       \<and> (\<forall>k. get k st = None \<longrightarrow>
            (case firstFor lc k 0 es of
               None \<Rightarrow> get k st' = None
             | Some (j, e) \<Rightarrow> (\<exists>r. get k st' = Some r \<and> persistedFrom lc (clock j) e r)))"
proof -
  let ?res = "importLoop lc clock 0 es (st, \<lparr> imported = 0, skipped = 0 \<rparr>)"
  have run: "importWords lc clock data st = (fst ?res, Inr (snd ?res))"
    using ne data by (auto simp: importWords_def Let_def)
  from importLoop_counts [of lc clock 0 es st "\<lparr> imported = 0, skipped = 0 \<rparr>"]
  have cnt1: "imported (snd ?res) = length (newKeys lc st es)"
    and sum: "imported (snd ?res) + skipped (snd ?res) = length (filter hasWord es)"
    by simp_all
  from cnt1 sum
  have cnt2: "skipped (snd ?res) = length (filter hasWord es) - length (newKeys lc st es)"
    by arith
  note cnt = cnt1 cnt2
  have keep: "\<forall>k r. get k st = Some r \<longrightarrow> get k (fst ?res) = Some r"
    by (simp add: importLoop_store)
  have new: "case firstFor lc k 0 es of
               None \<Rightarrow> get k (fst ?res) = None
             | Some (j, e) \<Rightarrow> (\<exists>r. get k (fst ?res) = Some r \<and> persistedFrom lc (clock j) e r)"
    if "get k st = None" for k
    using that
    by (auto simp: importLoop_store persistedFrom_importedRecord split: option.splits)
  from run cnt keep new show ?thesis
    by simp
qed

text \<open>
  Two instances. Ten records with the words \<open>a\<close> to \<open>j\<close> are imported into a store that
  holds \<open>b\<close>, \<open>d\<close> and \<open>j\<close>: 7 imported, 3 skipped, \<open>b\<close> is as it was and \<open>a\<close> has the
  level and the due date of the file. The records \<open>B\<close> (level 3) and \<open>b\<close> (level 4) are
  imported into the empty store: 1 imported, 1 skipped, and \<open>b\<close> is at level 3.
\<close>

theorem import_policy_witness:
  "tenEntries \<noteq> []
   \<and> snd (importWords asciiLower fixedClock (JArray tenEntries) threeRecs)
       = Inr \<lparr> imported = 7, skipped = 3 \<rparr>
   \<and> get [98] (fst (importWords asciiLower fixedClock (JArray tenEntries) threeRecs))
       = Some (sampleRec [98] 5)
   \<and> (\<exists>r. get [97] (fst (importWords asciiLower fixedClock (JArray tenEntries) threeRecs))
              = Some r \<and> level r = 3 \<and> nextReviewAt r = Some 500)
   \<and> dupEntries \<noteq> []
   \<and> snd (importWords asciiLower fixedClock (JObject (WordsArray dupEntries)) [])
       = Inr \<lparr> imported = 1, skipped = 1 \<rparr>
   \<and> (\<exists>r. get [98] (fst (importWords asciiLower fixedClock (JObject (WordsArray dupEntries)) []))
              = Some r \<and> level r = 3)"
proof -
  have ne: "tenEntries \<noteq> []"
    by (simp add: tenEntries_def)
  have hw: "length (filter hasWord tenEntries) = 10"
    by (simp add: tenEntries_def hasWord_def sampleEntry_def orStr_def)
  have nk: "length (newKeys asciiLower threeRecs tenEntries) = 7"
    by (simp add: newKeys_def tenEntries_def threeRecs_def knownIn_def keyOf_def hasWord_def
        sampleEntry_def sampleRec_def orStr_def asciiLower_def get_def)
  have g: "get [98] threeRecs = Some (sampleRec [98] 5)"
    by (simp add: threeRecs_def get_def sampleRec_def)
  have n: "get [97] threeRecs = None"
    by (simp add: threeRecs_def get_def sampleRec_def)
  have f: "firstFor asciiLower [97] 0 tenEntries = Some (0, sampleEntry [97] 3)"
    by (simp add: tenEntries_def hasWord_def keyOf_def sampleEntry_def orStr_def asciiLower_def)
  from import_policy [OF ne, of "JArray tenEntries" asciiLower fixedClock threeRecs]
  obtain st' c where r: "importWords asciiLower fixedClock (JArray tenEntries) threeRecs = (st', Inr c)"
    and i: "imported c = 7" and s: "skipped c = 3"
    and keep: "get [98] st' = Some (sampleRec [98] 5)"
    and new: "\<exists>r. get [97] st' = Some r \<and> persistedFrom asciiLower (fixedClock 0) (sampleEntry [97] 3) r"
    using hw nk g n f by fastforce
  from i s have c: "c = \<lparr> imported = 7, skipped = 3 \<rparr>"
    by (cases c) simp
  from new have new': "\<exists>r. get [97] st' = Some r \<and> level r = 3 \<and> nextReviewAt r = Some 500"
    by (auto simp: persistedFrom_def sampleEntry_def orNum_def)
  have ne2: "dupEntries \<noteq> []"
    by (simp add: dupEntries_def)
  have hw2: "length (filter hasWord dupEntries) = 2"
    by (simp add: dupEntries_def hasWord_def sampleEntry_def orStr_def)
  have nk2: "length (newKeys asciiLower [] dupEntries) = 1"
    by (simp add: newKeys_def dupEntries_def knownIn_def keyOf_def hasWord_def
        sampleEntry_def orStr_def asciiLower_def get_def)
  have n2: "get [98] [] = None"
    by (simp add: get_def)
  have f2: "firstFor asciiLower [98] 0 dupEntries = Some (0, sampleEntry [66] 3)"
    by (simp add: dupEntries_def hasWord_def keyOf_def sampleEntry_def orStr_def asciiLower_def)
  from import_policy [OF ne2, of "JObject (WordsArray dupEntries)" asciiLower fixedClock "[]"]
  obtain st2 c2 where r2: "importWords asciiLower fixedClock (JObject (WordsArray dupEntries)) []
        = (st2, Inr c2)"
    and i2: "imported c2 = 1" and s2: "skipped c2 = 1"
    and new2: "\<exists>r. get [98] st2 = Some r
        \<and> persistedFrom asciiLower (fixedClock 0) (sampleEntry [66] 3) r"
    using hw2 nk2 n2 f2 by fastforce
  from i2 s2 have c2: "c2 = \<lparr> imported = 1, skipped = 1 \<rparr>"
    by (cases c2) simp
  from new2 have new2': "\<exists>r. get [98] st2 = Some r \<and> level r = 3"
    by (auto simp: persistedFrom_def sampleEntry_def orNum_def)
  from ne r c keep new' ne2 r2 c2 new2' show ?thesis
    by simp
qed

text \<open>
  The claim as stated fails: the record \<open>Hi\<close> with \<open>nextReviewAt = 0\<close>, imported into the
  empty store, is stored with the word \<open>hi\<close> and a \<open>nextReviewAt\<close> one day after the
  import; the stored record is not the record of the file.
\<close>

theorem import_not_verbatim:
  "map toJSON (fst (importWords asciiLower fixedClock (JArray [capitalEntry]) []))
     = [capitalEntry\<lparr> j_word := Some [104, 105], j_nextReviewAt := Some (1000 + day) \<rparr>]
   \<and> map toJSON (fst (importWords asciiLower fixedClock (JArray [capitalEntry]) []))
     \<noteq> [capitalEntry]
   \<and> snd (importWords asciiLower fixedClock (JArray [capitalEntry]) [])
     = Inr \<lparr> imported = 1, skipped = 0 \<rparr>"
  by (simp add: importWords_def importEntry_def importedRecord_def capitalEntry_def
      getWord_def get_def toJSON_def fixedClock_def asciiLower_def orStr_def orNum_def
      orArr_def day_def Let_def)

section \<open>Export followed by import\<close>

text \<open>
  Claim C6 at a store with one word saved with a recording: after export and import into
  the empty store the record has no \<open>audioUrl\<close>, so the store is not reproduced.
\<close>

theorem roundTrip_loses_audioUrl:
  "audioStore =
     [\<lparr> word = [104, 105], phonetic = [], audioUrl = Some [97, 46, 109, 112, 51],
        meanings = [], translation = [], addedAt = 1000, nextReviewAt = Some (1000 + day),
        reviewCount = 0, level = 0, lastReviewedAt = None \<rparr>]
   \<and> roundTrip asciiLower 2000 fixedClock audioStore =
     Inr [\<lparr> word = [104, 105], phonetic = [], audioUrl = None,
        meanings = [], translation = [], addedAt = 1000, nextReviewAt = Some (1000 + day),
        reviewCount = 0, level = 0, lastReviewedAt = None \<rparr>]
   \<and> roundTrip asciiLower 2000 fixedClock audioStore \<noteq> Inr audioStore"
  by (simp add: roundTrip_def exportAllWords_def getAllWords_def audioStore_def saveWord_def
      importWords_def importEntry_def importedRecord_def
      getWord_def get_def toJSON_def fixedClock_def asciiLower_def orStr_def orNum_def
      orArr_def day_def Let_def)

section \<open>The range of the levels\<close>

lemma levelsOk_put: "levelsOk st \<Longrightarrow> levelOk (level r) \<Longrightarrow> levelsOk (put r st)"
  by (induction st) (auto simp: levelsOk_def)

lemma levelsOk_saveWord: "levelsOk st \<Longrightarrow> levelsOk (saveWord lc now wordData st)"
  by (simp add: saveWord_def levelsOk_put levelOk_def)

lemma levelsOk_find: "levelsOk st \<Longrightarrow> find P st = Some e \<Longrightarrow> levelOk (level e)"
  by (induction st) (auto simp: levelsOk_def split: if_splits)

lemma levelsOk_markAsReviewed:
  assumes "levelsOk st"
  shows "levelsOk (fst (markAsReviewed lc now w remembered st))"
proof (cases "find (\<lambda>r. word r = lc w) st")
  case None
  with assms show ?thesis
    by (simp add: markAsReviewed_def getAllWords_def)
next
  case (Some e)
  from levelsOk_find [OF assms Some] have "levelOk (level e)" .
  then have "levelOk (if remembered then min (level e + 1) 6 else 0)"
    by (auto simp: levelOk_def)
  with assms Some show ?thesis
    by (auto simp: markAsReviewed_def getAllWords_def updateWord_def get_def Let_def
        length_REVIEW_INTERVALS intro!: levelsOk_put)
qed

lemma levelsOk_importEntry:
  "levelsOk st \<Longrightarrow> entryLevelOk e \<Longrightarrow> levelsOk (fst (importEntry lc now e (st, c)))"
  by (auto simp: importEntry_cases importedRecord_def entryLevelOk_def orNum_def levelOk_def
      intro!: levelsOk_put split: option.splits)

lemma levelsOk_importLoop:
  "levelsOk st \<Longrightarrow> list_all entryLevelOk es
     \<Longrightarrow> levelsOk (fst (importLoop lc clock i es (st, c)))"
proof (induction es arbitrary: st c i)
  case Nil
  then show ?case by simp
next
  case (Cons e es)
  obtain st1 c1 where s: "importEntry lc (clock i) e (st, c) = (st1, c1)"
    by (cases "importEntry lc (clock i) e (st, c)")
  from Cons.prems levelsOk_importEntry [of st e lc "clock i" c] s have "levelsOk st1"
    by simp
  from Cons.IH [OF this] Cons.prems(2) s show ?case
    by simp
qed

lemma levelsOk_importWords:
  assumes "levelsOk st" and "list_all entryLevelOk (recordsOf data)"
  shows "levelsOk (fst (importWords lc clock data st))"
proof -
  have "fst (importWords lc clock data st) = st
      \<or> fst (importWords lc clock data st)
          = fst (importLoop lc clock 0 (recordsOf data) (st, \<lparr> imported = 0, skipped = 0 \<rparr>))"
    by (auto simp: importWords_def recordsOf_def Let_def split: payload.splits wordsField.splits)
  with assms levelsOk_importLoop [OF assms] show ?thesis
    by auto
qed

lemma levelsOk_exec: "levelsOk st \<Longrightarrow> operationOk x \<Longrightarrow> levelsOk (exec lc x st)"
  by (cases x) (simp_all add: levelsOk_saveWord levelsOk_markAsReviewed levelsOk_importWords)

lemma levelsOk_run: "levelsOk st \<Longrightarrow> list_all operationOk xs \<Longrightarrow> levelsOk (run lc xs st)"
  by (induction xs arbitrary: st) (simp_all add: levelsOk_exec)

text \<open>
  Claim C8, as amended. In every store reached from the empty store by \<open>saveWord\<close>,
  \<open>markAsReviewed\<close> and imports of files whose records give no level or a level in 0..6,
  every record has a level in 0..6.
\<close>

theorem levels_in_range:
  assumes "list_all operationOk xs"
  shows "levelsOk (run lc xs [])"
  using levelsOk_run [OF _ assms, of "[]" lc] by (simp add: levelsOk_def)

text \<open>
  An instance: save \<open>Hi\<close>, import \<open>go\<close> at level 6, review both with success: the levels
  are 1 and 6.
\<close>

theorem levels_in_range_witness:
  "list_all operationOk sampleOps
   \<and> levelsOk (run asciiLower sampleOps [])
   \<and> map level (run asciiLower sampleOps []) = [1, 6]"
proof -
  have h: "list_all operationOk sampleOps"
    by (simp add: sampleOps_def recordsOf_def entryLevelOk_def sampleEntry_def levelOk_def)
  have "map level (run asciiLower sampleOps []) = [1, 6]"
    by (simp add: sampleOps_def saveWord_def markAsReviewed_def updateWord_def getAllWords_def
        importWords_def importEntry_def importedRecord_def sampleEntry_def getWord_def
        get_def asciiLower_def orStr_def orNum_def orArr_def Let_def
        length_REVIEW_INTERVALS getNextReviewDate_def fixedClock_def)
  with h levels_in_range [OF h, of asciiLower] show ?thesis
    by simp
qed

text \<open>
  The claim as stated fails: the import copies the level of a file record as it is, so a
  record at level 7 is stored at level 7.
\<close>

theorem import_level_out_of_range:
  "\<not> levelsOk (run asciiLower [Import (JArray [level7Entry]) fixedClock] [])"
  by (simp add: level7Entry_def sampleEntry_def importWords_def importEntry_def
      importedRecord_def getWord_def get_def asciiLower_def orStr_def orNum_def orArr_def
      Let_def levelsOk_def levelOk_def fixedClock_def)

section \<open>The classifier\<close>

lemma CJK_not_space: "isCJK c \<Longrightarrow> \<not> isWhiteSpace c"
  by (auto simp: isCJK_def isWhiteSpace_def)

lemma list_ex_dropWhile:
  "(\<And>c. P c \<Longrightarrow> \<not> Q c) \<Longrightarrow> list_ex P (dropWhile Q s) = list_ex P s"
  by (induction s) auto

lemma list_ex_rev: "list_ex P (rev s) = list_ex P s"
  by (simp add: list_ex_iff)

lemma list_ex_trim: "list_ex isCJK (trim s) = list_ex isCJK s"
  by (simp add: trim_def list_ex_rev list_ex_dropWhile [of isCJK isWhiteSpace] CJK_not_space)

lemma splitFrom_ne: "splitFrom cur s \<noteq> []"
  by (induction cur s rule: splitFrom.induct) auto

lemma splitFrom_space: "list_ex isWhiteSpace s \<Longrightarrow> length (splitFrom cur s) > 1"
  by (induction cur s rule: splitFrom.induct) (auto simp: splitFrom_ne)

lemma pieces_ne: "pieces s \<noteq> []"
  by (induction s) (auto split: list.splits)

lemma pieces_no_space: "\<not> list_ex isWhiteSpace s \<Longrightarrow> pieces s = [s]"
  by (induction s) (auto split: list.splits)

lemma pieces_append: "isWhiteSpace w \<Longrightarrow> pieces (a @ w # b) = pieces a @ pieces b"
  by (induction a) (auto split: list.splits simp: pieces_ne)

lemma tokens_append: "isWhiteSpace w \<Longrightarrow> tokens (a @ w # b) = tokens a @ tokens b"
  by (simp add: tokens_def pieces_append)

lemma tokens_ne: "list_ex (\<lambda>c. \<not> isWhiteSpace c) s \<Longrightarrow> tokens s \<noteq> []"
proof (induction s)
  case Nil
  then show ?case by simp
next
  case (Cons c s)
  then show ?case
    by (cases "pieces s") (auto simp: tokens_def pieces_ne)
qed

lemma trim_ends:
  "trim s = [] \<or> (\<not> isWhiteSpace (hd (trim s)) \<and> \<not> isWhiteSpace (last (trim s)))"
proof (cases "trim s = []")
  case True
  then show ?thesis by simp
next
  case False
  let ?v = "dropWhile isWhiteSpace s"
  let ?u = "dropWhile isWhiteSpace (rev ?v)"
  from False have une: "?u \<noteq> []" by (simp add: trim_def)
  then have "\<not> isWhiteSpace (hd ?u)" by (rule hd_dropWhile)
  then have l: "\<not> isWhiteSpace (last (trim s))"
    using une by (simp add: trim_def last_rev)
  have "rev ?v = takeWhile isWhiteSpace (rev ?v) @ ?u" by simp
  then have "?v = rev ?u @ rev (takeWhile isWhiteSpace (rev ?v))"
    by (metis rev_append rev_rev_ident)
  then have v: "?v = trim s @ rev (takeWhile isWhiteSpace (rev ?v))"
    by (simp add: trim_def)
  with False have "hd ?v = hd (trim s)" by (metis hd_append2)
  moreover from v False have "?v \<noteq> []" by (metis Nil_is_append_conv)
  then have "\<not> isWhiteSpace (hd ?v)" by (rule hd_dropWhile)
  ultimately show ?thesis using l by simp
qed

lemma tokens_many:
  assumes ends: "\<not> isWhiteSpace (hd u)" "\<not> isWhiteSpace (last u)"
    and sp: "list_ex isWhiteSpace u"
  shows "length (tokens u) > 1"
proof -
  from sp obtain a w b where u: "u = a @ w # b" and w: "isWhiteSpace w"
    by (auto simp: list_ex_iff dest: split_list)
  from u w ends(1) have a: "a \<noteq> []" by (cases a) auto
  with u ends(1) have "\<not> isWhiteSpace (hd a)" by simp
  with a have "list_ex (\<lambda>c. \<not> isWhiteSpace c) a" by (cases a) auto
  then have ta: "tokens a \<noteq> []" by (rule tokens_ne)
  from u w ends(2) have b: "b \<noteq> []" by (cases b) auto
  with u ends(2) have "\<not> isWhiteSpace (last b)" by simp
  with b have "list_ex (\<lambda>c. \<not> isWhiteSpace c) b"
    by (auto simp: list_ex_iff intro: last_in_set)
  then have tb: "tokens b \<noteq> []" by (rule tokens_ne)
  from ta tb have "length (tokens a) \<ge> 1" "length (tokens b) \<ge> 1"
    by (simp_all add: Suc_le_eq)
  then show ?thesis by (simp add: u tokens_append [OF w])
qed

lemma tokens_single: "\<not> list_ex isWhiteSpace u \<Longrightarrow> length (tokens u) \<le> 1"
  by (simp add: tokens_def pieces_no_space)

text \<open>
  Claim C9. \<open>detectInputType\<close> is a function of its input alone and has a value for every
  input: \<open>Chinese\<close> when some code unit of the input is in the CJK ranges, whatever the
  number of tokens; otherwise \<open>Phrase\<close> when the trimmed input has more than one token
  between white space; otherwise \<open>Word\<close>.
\<close>

theorem detectInputType_rule:
  "detectInputType input =
     (if list_ex isCJK input then Chinese
      else if length (tokens (trim input)) > 1 then Phrase
      else Word)"
proof -
  have "(list_ex isWhiteSpace (trim input) \<and> length (splitWhiteSpace (trim input)) > 1)
          = (length (tokens (trim input)) > 1)"
  proof (cases "list_ex isWhiteSpace (trim input)")
    case True
    then have "trim input \<noteq> []" by auto
    with trim_ends [of input]
    have "\<not> isWhiteSpace (hd (trim input))" "\<not> isWhiteSpace (last (trim input))"
      by blast+
    from tokens_many [OF this True] have "length (tokens (trim input)) > 1" .
    with True splitFrom_space [OF True, of "[]"] show ?thesis
      by (simp add: splitWhiteSpace_def)
  next
    case False
    with tokens_single [of "trim input"] show ?thesis by simp
  qed
  then show ?thesis
    by (simp add: detectInputType_def Let_def list_ex_trim)
qed

section \<open>The order of the tiers\<close>

lemma withoutZh_annotated: "withoutZh (annotated P d) = withoutZh d"
  by (simp add: withoutZh_def annotated_def translateDefinitions_def comp_def)

lemma annotated_translationOnly:
  "annotated P (createTranslationOnlyResult lc q) = createTranslationOnlyResult lc q"
  "annotated P ((createTranslationOnlyResult lc q)\<lparr> d_source := s \<rparr>)
     = (createTranslationOnlyResult lc q)\<lparr> d_source := s \<rparr>"
  by (simp_all add: annotated_def createTranslationOnlyResult_def translateDefinitions_def)

lemma meanings_translationOnly:
  "translateDefinitions P (d_meanings (createTranslationOnlyResult lc q)) = []"
  by (simp add: createTranslationOnlyResult_def translateDefinitions_def)

lemma filter_definitionCalls: "filter isTierCall (definitionCalls ms) = []"
  by (induction ms) (auto simp: definitionCalls_def filter_empty_conv)

lemma translationOnly_usable:
  "(translateWord P q \<noteq> [] \<and> translateWord P q \<noteq> unavailable)
     = (truthy (translateText P q EnZh) \<and> translateText P q EnZh \<noteq> Some unavailable)"
  by (auto simp: translateWord_def orStr_def truthy_def unavailable_def split: option.splits)

lemma handleWordLookup_waterfall:
  "r_dictData (fst (handleWordLookup P lc q))
      = map_option (annotated P) (firstHit (tierRecord P lc q) (tierList Word))
   \<and> filter isTierCall (snd (handleWordLookup P lc q))
      = concat (map (tierCalls q) (attempted (tierRecord P lc q) (tierList Word)))
   \<and> r_inputType (fst (handleWordLookup P lc q)) = Word"
  by (auto simp: handleWordLookup_def Let_def translationOnly_usable
      filter_definitionCalls truthy_def annotated_def createTranslationOnlyResult_def
      translateDefinitions_def
      split: option.splits)

lemma handlePhraseLookup_waterfall:
  "r_dictData (fst (handlePhraseLookup P lc q))
      = map_option (annotated P) (firstHit (tierRecord P lc q) (tierList Phrase))
   \<and> filter isTierCall (snd (handlePhraseLookup P lc q))
      = concat (map (tierCalls q) (attempted (tierRecord P lc q) (tierList Phrase)))
   \<and> r_inputType (fst (handlePhraseLookup P lc q)) = Phrase"
  by (auto simp: handlePhraseLookup_def Let_def translationOnly_usable
      filter_definitionCalls truthy_def annotated_def createTranslationOnlyResult_def
      translateDefinitions_def
      split: option.splits)

text \<open>
  Claim C1, as amended. For an input classified as word the tiers are PrimaryDictionary,
  SecondaryDictionary, TranslationOnly, LLMFallback, for a phrase SecondaryDictionary,
  PrimaryDictionary, TranslationOnly, LLMFallback. The requests to the dictionaries and to
  the language model are those of the tiers up to the first one that yields a record, in
  that order; the record returned is the record of that tier, in which
  \<open>translateDefinitions\<close> has set the \<open>translationZh\<close> of every definition and nothing else
  is changed; no record is returned when no tier yields one.
\<close>

theorem lookup_tier_order:
  assumes "detectInputType input = Word \<or> detectInputType input = Phrase"
  shows "r_dictData (fst (lookupWord P lc input))
      = map_option (annotated P)
          (firstHit (tierRecord P lc (trim input)) (tierList (detectInputType input)))
   \<and> filter isTierCall (snd (lookupWord P lc input))
      = concat (map (tierCalls (trim input))
          (attempted (tierRecord P lc (trim input)) (tierList (detectInputType input))))
   \<and> r_inputType (fst (lookupWord P lc input)) = detectInputType input
   \<and> (\<forall>d. withoutZh (annotated P d) = withoutZh d)"
  using assms handleWordLookup_waterfall [of P lc "trim input"]
    handlePhraseLookup_waterfall [of P lc "trim input"]
  by (auto simp: lookupWord_def Let_def withoutZh_annotated)

text \<open>
  An instance: \<open>multi word phrase\<close> is a phrase, the secondary dictionary is first in its
  list and knows it, and no other dictionary is asked.
\<close>

theorem lookup_tier_order_witness:
  "(detectInputType str_phrase = Word \<or> detectInputType str_phrase = Phrase)
   \<and> tierList (detectInputType str_phrase)
       = [SecondaryDictionary, PrimaryDictionary, TranslationOnlyTier, LLMFallback]
   \<and> r_dictData (fst (lookupWord sampleProviders asciiLower str_phrase))
       = Some (annotated sampleProviders (sampleDict str_phrase Wiktionary))
   \<and> filter isTierCall (snd (lookupWord sampleProviders asciiLower str_phrase))
       = [CallWiki str_phrase]"
proof -
  have p: "detectInputType str_phrase = Phrase"
    by (simp add: eval_defs)
  then have h: "detectInputType str_phrase = Word \<or> detectInputType str_phrase = Phrase"
    by simp
  have tr: "trim str_phrase = str_phrase"
    by (simp add: trim_def isWhiteSpace_def str_phrase_def)
  have w: "lookupWiktionary sampleProviders str_phrase = Some (sampleDict str_phrase Wiktionary)"
    by (simp add: sampleProviders_def)
  from lookup_tier_order [OF h, of sampleProviders asciiLower] h show ?thesis
    by (simp add: p tr w)
qed

text \<open>
  The claim as stated fails: for \<open>run\<close> the primary dictionary yields a record, and the
  record returned is not that record: its definition has a \<open>translationZh\<close>.
\<close>

theorem lookup_modifies_record:
  "detectInputType str_run = Word
   \<and> lookupFreeDictionary sampleProviders (trim str_run) = Some (sampleDict str_run FreeDictionary)
   \<and> r_dictData (fst (lookupWord sampleProviders asciiLower str_run))
       \<noteq> Some (sampleDict str_run FreeDictionary)
   \<and> r_dictData (fst (lookupWord sampleProviders asciiLower str_run))
       = Some ((sampleDict str_run FreeDictionary)
            \<lparr> d_meanings := [\<lparr> partOfSpeech = [118, 101, 114, 98],
                       definitions = [\<lparr> definition_text = [109, 111, 118, 101],
                                         examples = [], translationZh = Some [] \<rparr>],
                       synonyms = [] \<rparr>] \<rparr>)"
  by (simp add: eval_defs)

section \<open>Chinese input\<close>

lemma stripTrailing_run: "stripTrailing s = rev (dropWhile isPunct (rev s))"
proof (induction s)
  case Nil
  then show ?case by simp
next
  case (Cons c cs)
  show ?case
  proof (cases "list_all isPunct (c # cs)")
    case True
    then have "dropWhile isPunct (rev (c # cs)) = []"
      by (simp add: list_all_iff)
    with True show ?thesis by simp
  next
    case False
    show ?thesis
    proof (cases "list_all isPunct cs")
      case True
      with False have c: "\<not> isPunct c" by simp
      from True have "dropWhile isPunct (rev cs) = []" by (simp add: list_all_iff)
      moreover have "dropWhile isPunct (rev cs @ [c]) = dropWhile isPunct [c]"
        by (rule dropWhile_append2) (use True in \<open>simp add: list_all_iff\<close>)
      with c have "dropWhile isPunct (rev cs @ [c]) = [c]"
        by simp
      ultimately show ?thesis using False Cons.IH by simp
    next
      case nall: False
      then obtain x where "x \<in> set (rev cs)" "\<not> isPunct x"
        by (auto simp: list_all_iff)
      then have "dropWhile isPunct (rev cs @ [c]) = dropWhile isPunct (rev cs) @ [c]"
        by (rule dropWhile_append1)
      with False Cons.IH show ?thesis by simp
    qed
  qed
qed

text \<open>
  Claim C2, as amended. For an input classified as Chinese the first request is the
  translation of the trimmed input to English, and no dictionary is asked when neither the
  translation service nor the language model gives a translation. When the translation is
  \<open>e\<close>: the dictionaries are asked for \<open>e\<close> lower-cased, trimmed and without its trailing
  run of \<open>. ! ? , ; :\<close>, the primary first and the secondary if the primary has nothing
  (the other tiers of the word list are not tried); the translation of the result is \<open>e\<close>
  itself, unstripped. When a dictionary has a record, the record returned is that record
  with the trimmed Chinese input as its \<open>word\<close> (the property under which the caller
  saves it) and the English word of the dictionary's record as \<open>originalWord\<close>; when
  neither has one, it is a translation-only record whose \<open>word\<close> is the lower-cased
  trimmed Chinese input and which has no \<open>originalWord\<close>.
\<close>

theorem chinese_bridge:
  assumes ch: "detectInputType input = Chinese"
  shows "hd (snd (lookupWord P lc input)) = CallTranslate (trim input) ZhEn
       \<and> r_inputType (fst (lookupWord P lc input)) = Chinese
       \<and> (\<not> truthy (englishFor P (trim input)) \<longrightarrow>
            filter isDictCall (snd (lookupWord P lc input)) = [])
       \<and> (\<forall>e. englishFor P (trim input) = Some e \<and> e \<noteq> [] \<longrightarrow>
            filter isDictCall (snd (lookupWord P lc input))
              = CallFree (bridgeKey lc e)
                  # (case lookupFreeDictionary P (bridgeKey lc e) of
                       None \<Rightarrow> [CallWiki (bridgeKey lc e)] | Some d \<Rightarrow> [])
            \<and> r_translation (fst (lookupWord P lc input)) = e
            \<and> r_dictData (fst (lookupWord P lc input))
                = Some (case nestedLookup P (bridgeKey lc e) of
                          Some d \<Rightarrow> d\<lparr> d_word := trim input, d_originalWord := Some (d_word d) \<rparr>
                        | None \<Rightarrow> createTranslationOnlyResult lc (trim input)))"
proof -
  have l: "lookupWord P lc input = handleChineseLookup P lc (trim input)"
    using ch by (simp add: lookupWord_def)
  have first: "hd (snd (handleChineseLookup P lc (trim input))) = CallTranslate (trim input) ZhEn"
    by (simp add: handleChineseLookup_def Let_def)
  have ty: "r_inputType (fst (handleChineseLookup P lc (trim input))) = Chinese"
    by (simp add: handleChineseLookup_def Let_def)
  have none: "filter isDictCall (snd (handleChineseLookup P lc (trim input))) = []"
    if "\<not> truthy (englishFor P (trim input))"
    using that by (auto simp: handleChineseLookup_def Let_def englishFor_def split: if_splits)
  have some: "filter isDictCall (snd (handleChineseLookup P lc (trim input)))
              = CallFree (bridgeKey lc e)
                  # (case lookupFreeDictionary P (bridgeKey lc e) of
                       None \<Rightarrow> [CallWiki (bridgeKey lc e)] | Some d \<Rightarrow> [])
            \<and> r_translation (fst (handleChineseLookup P lc (trim input))) = e
            \<and> r_dictData (fst (handleChineseLookup P lc (trim input)))
                = Some (case nestedLookup P (bridgeKey lc e) of
                          Some d \<Rightarrow> d\<lparr> d_word := trim input, d_originalWord := Some (d_word d) \<rparr>
                        | None \<Rightarrow> createTranslationOnlyResult lc (trim input))"
    if en: "englishFor P (trim input) = Some e" and ne: "e \<noteq> []" for e
  proof -
    have key: "stripTrailing (trim (lc e)) = bridgeKey lc e"
      by (simp add: bridgeKey_def stripTrailing_run)
    show ?thesis
    proof (cases "truthy (translateChineseToEnglish P (trim input))")
      case True
      with en have "translateChineseToEnglish P (trim input) = Some e"
        by (simp add: englishFor_def)
      with True show ?thesis
        by (auto simp: handleChineseLookup_def Let_def orStr_def ne key nestedLookup_def
            split: option.splits)
    next
      case False
      with en have "translateWithDeepSeek P (trim input) = Some e"
        by (simp add: englishFor_def)
      with False show ?thesis
        by (auto simp: handleChineseLookup_def Let_def orStr_def ne key nestedLookup_def
            truthy_def split: option.splits)
    qed
  qed
  from first ty none some show ?thesis
    by (simp only: l) blast
qed

text \<open>
  An instance: the greeting is translated to \<open>Hello.!\<close> between two spaces, the dictionary
  is asked for \<open>hello\<close> (as it is for \<open>Hello.\<close>), and the record shows the greeting, keeps
  \<open>hello\<close> as \<open>originalWord\<close> and has the padded string as its translation.
\<close>

theorem chinese_bridge_witness:
  "detectInputType str_nihao = Chinese
   \<and> englishFor paddedProviders (trim str_nihao) = Some str_padded \<and> str_padded \<noteq> []
   \<and> bridgeKey asciiLower str_padded = str_hello
   \<and> bridgeKey asciiLower str_HelloDot = str_hello
   \<and> hd (snd (lookupWord paddedProviders asciiLower str_nihao)) = CallTranslate str_nihao ZhEn
   \<and> filter isDictCall (snd (lookupWord paddedProviders asciiLower str_nihao))
       = [CallFree str_hello]
   \<and> r_translation (fst (lookupWord paddedProviders asciiLower str_nihao)) = str_padded
   \<and> r_dictData (fst (lookupWord paddedProviders asciiLower str_nihao))
       = Some ((sampleDict str_hello FreeDictionary)
            \<lparr> d_word := str_nihao, d_originalWord := Some str_hello \<rparr>)"
proof -
  have ch: "detectInputType str_nihao = Chinese"
    by (simp add: eval_defs)
  have tr: "trim str_nihao = str_nihao"
    by (simp add: trim_def isWhiteSpace_def str_nihao_def)
  have en: "englishFor paddedProviders (trim str_nihao) = Some str_padded"
    by (simp add: tr englishFor_def translateChineseToEnglish_def paddedProviders_def
        truthy_def str_padded_def)
  have ne: "str_padded \<noteq> []"
    by (simp add: str_padded_def)
  have key: "bridgeKey asciiLower str_padded = str_hello"
    by (simp add: bridgeKey_def trim_def isWhiteSpace_def isPunct_def asciiLower_def
        str_padded_def str_hello_def)
  have key2: "bridgeKey asciiLower str_HelloDot = str_hello"
    by (simp add: bridgeKey_def trim_def isWhiteSpace_def isPunct_def asciiLower_def
        str_HelloDot_def str_hello_def)
  have free: "lookupFreeDictionary paddedProviders str_hello
      = Some (sampleDict str_hello FreeDictionary)"
    by (simp add: paddedProviders_def)
  then have nested: "nestedLookup paddedProviders str_hello
      = Some (sampleDict str_hello FreeDictionary)"
    by (simp add: nestedLookup_def)
  have w: "d_word (sampleDict str_hello FreeDictionary) = str_hello"
    by (simp add: sampleDict_def)
  from chinese_bridge [OF ch, of paddedProviders asciiLower] en ne
  have "hd (snd (lookupWord paddedProviders asciiLower str_nihao)) = CallTranslate str_nihao ZhEn"
    and "filter isDictCall (snd (lookupWord paddedProviders asciiLower str_nihao))
       = [CallFree str_hello]"
    and "r_translation (fst (lookupWord paddedProviders asciiLower str_nihao)) = str_padded"
    and "r_dictData (fst (lookupWord paddedProviders asciiLower str_nihao))
       = Some ((sampleDict str_hello FreeDictionary)
            \<lparr> d_word := str_nihao, d_originalWord := Some str_hello \<rparr>)"
    by (simp_all add: key free nested tr w)
  with ch en ne key key2 show ?thesis
    by simp
qed

text \<open>
  The claim as stated fails: the greeting is translated to \<open>Hello.\<close> and no dictionary
  knows \<open>hello\<close>; the record returned has the greeting as its \<open>word\<close> and no
  \<open>originalWord\<close>: the English word is nowhere in it.
\<close>

theorem chinese_miss_keeps_no_lemma:
  "detectInputType str_nihao = Chinese
   \<and> translateText translatorOnly str_nihao ZhEn = Some str_HelloDot
   \<and> filter isDictCall (snd (lookupWord translatorOnly asciiLower str_nihao))
       = [CallFree str_hello, CallWiki str_hello]
   \<and> r_translation (fst (lookupWord translatorOnly asciiLower str_nihao)) = str_HelloDot
   \<and> r_dictData (fst (lookupWord translatorOnly asciiLower str_nihao))
       = Some \<lparr> d_word = str_nihao, d_phonetic = [], d_audioUrl = None, d_meanings = [],
                d_source = TranslationOnly, d_originalWord = None \<rparr>
   \<and> str_nihao \<noteq> str_hello"
  by (simp add: eval_defs translatorOnly_def)

section \<open>A lookup that finds nothing\<close>

text \<open>The lookup of a Chinese text returns a record in every case.\<close>

lemma handleChineseLookup_never_null:
  "r_dictData (fst (handleChineseLookup P lc chineseText)) \<noteq> None"
  by (simp add: handleChineseLookup_def Let_def)

text \<open>
  Claim C3 at providers that answer nothing: for the Chinese greeting the lookup returns a
  translation-only record and the greeting itself as its translation, not a null record;
  for the word \<open>run\<close> it returns no record and the string of \<open>translateWord\<close> for a
  missing translation.
\<close>

theorem chinese_miss_returns_record:
  "detectInputType str_nihao = Chinese
   \<and> lookupWord noProviders asciiLower str_nihao
       = (\<lparr> r_dictData = Some \<lparr> d_word = str_nihao, d_phonetic = [], d_audioUrl = None,
                                d_meanings = [], d_source = TranslationOnly,
                                d_originalWord = None \<rparr>,
            r_translation = str_nihao, r_inputType = Chinese \<rparr>,
          [CallTranslate str_nihao ZhEn, CallLLM str_nihao])
   \<and> lookupWord noProviders asciiLower str_run
       = (\<lparr> r_dictData = None, r_translation = unavailable, r_inputType = Word \<rparr>,
          [CallFree str_run, CallTranslate str_run EnZh, CallWiki str_run, CallLLM str_run])"
  by (simp add: eval_defs)

end
